theory Spec2Isabelle
  imports Main "HOL-Library.Sublist"
begin

section \<open>Strings\<close>

text \<open>
  Python's \<^verbatim>\<open>needle in haystack\<close> on strings: the needle occurs as a contiguous
  run of characters. A \<open>string\<close> is a list of characters; \<^verbatim>\<open>body[:50]\<close> is \<open>take 50 body\<close>
  and an f-string is a concatenation.
\<close>

fun str_in :: "string \<Rightarrow> string \<Rightarrow> bool" where
  "str_in needle [] = (needle = [])"
| "str_in needle (c # cs) = (prefix needle (c # cs) \<or> str_in needle cs)"

section \<open>Exceptions\<close>

text \<open>
  The exceptions of one invocation, each with its message (\<^verbatim>\<open>str(e)\<close>):
  Playwright's \<^verbatim>\<open>TimeoutError\<close>, the \<^verbatim>\<open>ValueError\<close> the skill raises itself, and any
  other instance of \<^verbatim>\<open>Exception\<close>. Every constructor is a subclass of \<^verbatim>\<open>Exception\<close>,
  so each is caught by \<^verbatim>\<open>except Exception\<close>; signals that derive from \<^verbatim>\<open>BaseException\<close>
  alone (keyboard interrupt, task cancellation) are not failures of a browser action
  and are not modelled. The cause attached by \<^verbatim>\<open>raise ... from e\<close> is not recorded.
\<close>

datatype exn = PlaywrightTimeoutError string | ValueError string | Exception string

fun str :: "exn \<Rightarrow> string" where
  "str (PlaywrightTimeoutError m) = m"
| "str (ValueError m) = m"
| "str (Exception m) = m"

section \<open>Events and the environment of one invocation\<close>

datatype MessageType = ACTION | ERROR

datatype locator =
    get_by_role string string
  | get_by_label string
  | get_by_text string bool

text \<open>
  Everything the skill does to the outside, in the order it does it: logger calls,
  calls of the page-lifecycle provider, reads of the process environment and
  Playwright calls on the page, its locators and its keyboard.
\<close>

datatype event =
    LogDebug string
  | LogInfo string
  | LogError string
  | GetCurrentPage
  | TakeScreenshots string
  | NotifyUser string MessageType
  | EnvironGet string
  | Goto string string
  | IsVisible locator
  | Click locator
  | Fill locator string
  | Press locator string
  | WaitForSelector string string
  | WaitForUrl string nat
  | WaitFor locator string
  | KeyboardType string
  | KeyboardPress string

type_synonym page = nat

text \<open>
  What the outside answers during one invocation. The skill has no loop, so every
  awaited Playwright call is executed at most once and is identified by its line in
  \<^verbatim>\<open>compose_email.py\<close>: \<open>raises_at w l\<close> is the exception that the call on line \<open>l\<close>
  raises in this invocation, or \<open>None\<close> when it completes. \<open>page_url w l\<close> is the value of
  \<^verbatim>\<open>page.url\<close> as read on line \<open>l\<close>, \<open>sign_in_visible\<close> the answer of \<^verbatim>\<open>is_visible()\<close> on line 59,
  \<open>environ\<close> is \<^verbatim>\<open>os.environ\<close>, and \<open>format_exc e\<close> is the text \<^verbatim>\<open>traceback.format_exc()\<close>
  gives while \<open>e\<close> is being handled.
\<close>

record world =
  current_page :: "page option"
  page_url :: "nat \<Rightarrow> string"
  sign_in_visible :: "exn + bool"
  raises_at :: "nat \<Rightarrow> exn option"
  environ :: "string \<Rightarrow> string option"
  format_exc :: "exn \<Rightarrow> string"

section \<open>Programs: a result or an exception, and the events performed\<close>

text \<open>
  A program is what it yields, the value it returns (\<open>Inr\<close>) or the exception it raises
  (\<open>Inl\<close>), together with the events it performed up to that point, in order.
  Sequencing stops at the first exception and keeps the events performed so far.
\<close>

type_synonym 'a prog = "(exn + 'a) \<times> event list"

definition return :: "'a \<Rightarrow> 'a prog" where
  "return x = (Inr x, [])"

definition raise :: "exn \<Rightarrow> 'a prog" where
  "raise e = (Inl e, [])"

definition bind_prog :: "'a prog \<Rightarrow> ('a \<Rightarrow> 'b prog) \<Rightarrow> 'b prog" where
  "bind_prog m f =
     (case m of
        (Inl e, t) \<Rightarrow> (Inl e, t)
      | (Inr x, t) \<Rightarrow> (case f x of (r, t') \<Rightarrow> (r, t @ t')))"

definition then_prog :: "unit prog \<Rightarrow> 'b prog \<Rightarrow> 'b prog" where
  "then_prog m k = bind_prog m (\<lambda>_. k)"

text \<open>\<^verbatim>\<open>try: body except Exception as e: handler\<close>\<close>

definition try_except :: "'a prog \<Rightarrow> (exn \<Rightarrow> 'a prog) \<Rightarrow> 'a prog" where
  "try_except body handler =
     (case body of
        (Inl e, t) \<Rightarrow> (case handler e of (r, t') \<Rightarrow> (r, t @ t'))
      | (Inr x, t) \<Rightarrow> (Inr x, t))"

definition emit :: "event \<Rightarrow> unit prog" where
  "emit ev = (Inr (), [ev])"

text \<open>An awaited Playwright call on line \<open>l\<close>: it is attempted, then completes or raises.\<close>

definition await_at :: "world \<Rightarrow> nat \<Rightarrow> event \<Rightarrow> unit prog" where
  "await_at w l ev = (case raises_at w l of None \<Rightarrow> Inr () | Some e \<Rightarrow> Inl e, [ev])"

definition is_visible :: "world \<Rightarrow> locator \<Rightarrow> bool prog" where
  "is_visible w loc = (sign_in_visible w, [IsVisible loc])"

definition environ_get :: "world \<Rightarrow> string \<Rightarrow> string option prog" where
  "environ_get w k = (Inr (environ w k), [EnvironGet k])"

definition logger_debug :: "string \<Rightarrow> unit prog" where
  "logger_debug m = emit (LogDebug m)"

definition logger_info :: "string \<Rightarrow> unit prog" where
  "logger_info m = emit (LogInfo m)"

definition logger_error :: "string \<Rightarrow> unit prog" where
  "logger_error m = emit (LogError m)"

text \<open>
  Modelled from the spec: the page-lifecycle provider (\<^verbatim>\<open>PlaywrightManager\<close>, imported from
  \<^verbatim>\<open>ae.core.playwright_manager\<close>, whose source is not among the files verified here). Its
  interface is \<^verbatim>\<open>getCurrentPage() -> SessionHandle | none\<close>, \<^verbatim>\<open>takeScreenshot(label, SessionHandle)\<close>
  and \<^verbatim>\<open>notifyUser(message, severity)\<close>; no failure of these operations is specified, so
  each is an event that completes. Constructing the manager (line 25) performs no event.
\<close>

definition get_current_page :: "world \<Rightarrow> page option prog" where
  "get_current_page w = (Inr (current_page w), [GetCurrentPage])"

definition take_screenshots :: "string \<Rightarrow> page \<Rightarrow> unit prog" where
  "take_screenshots name pg = emit (TakeScreenshots name)"

definition notify_user :: "string \<Rightarrow> MessageType \<Rightarrow> unit prog" where
  "notify_user message message_type = emit (NotifyUser message message_type)"

section \<open>The Field-Fill Sequencer: \<^verbatim>\<open>do_compose_email\<close>\<close>

record outcome =
  summary_message :: string
  detailed_message :: string

definition keyboard_type :: "world \<Rightarrow> nat \<Rightarrow> string \<Rightarrow> unit prog" where
  "keyboard_type w l text = await_at w l (KeyboardType text)"

definition keyboard_press :: "world \<Rightarrow> nat \<Rightarrow> string \<Rightarrow> unit prog" where
  "keyboard_press w l key = await_at w l (KeyboardPress key)"

definition do_compose_email :: "world \<Rightarrow> string \<Rightarrow> string \<Rightarrow> string \<Rightarrow> outcome prog" where
  "do_compose_email w recipient subject body =
     try_except
       (then_prog (logger_debug (''Starting do_compose_email with recipient: '' @ recipient
                                  @ '', subject: '' @ subject))
       (then_prog (logger_debug ''Attempting to fill recipient'')
       (then_prog (keyboard_type w 162 recipient)
       (then_prog (keyboard_press w 163 ''Tab'')
       (then_prog (logger_debug ''Recipient filled and confirmed'')
       (then_prog (logger_debug ''Attempting to fill subject'')
       (then_prog (keyboard_type w 168 subject)
       (then_prog (keyboard_press w 169 ''Tab'')
       (then_prog (logger_debug ''Subject filled successfully'')
       (then_prog (logger_debug ''Attempting to fill email body'')
       (then_prog (keyboard_type w 174 body)
       (then_prog (logger_debug ''Email body filled successfully'')
       (let success_msg = ''Email composed successfully for '' @ recipient @ ''.'' in
        then_prog (logger_info success_msg)
          (return \<lparr>summary_message = success_msg,
                   detailed_message = success_msg @ '' Subject: '' @ [CHR 0x27] @ subject
                     @ [CHR 0x27] @ '', Body: '' @ [CHR 0x27] @ take 50 body
                     @ ''...'' @ [CHR 0x27]\<rparr>))))))))))))))
       (\<lambda>e. let error = ''Error composing email for '' @ recipient @ ''.'' in
          then_prog (logger_error (error @ '' Error details: '' @ str e))
            (return \<lparr>summary_message = error,
                     detailed_message = error @ '' Error: '' @ str e\<rparr>))"

section \<open>The Skill Entry Point: \<^verbatim>\<open>compose_email\<close>\<close>

text \<open>Python's \<^verbatim>\<open>not v\<close> for a value that is \<^verbatim>\<open>None\<close> or a string.\<close>

definition py_not :: "string option \<Rightarrow> bool" where
  "py_not v = (case v of None \<Rightarrow> True | Some s \<Rightarrow> s = [])"

text \<open>Lines 60 to 82: the branch taken when the sign-in link is visible.\<close>

definition sign_in :: "world \<Rightarrow> locator \<Rightarrow> unit prog" where
  "sign_in w sign_in_button =
     then_prog (logger_info ''Sign-in button detected. Attempting to sign in...'')
     (bind_prog (environ_get w ''EMAIL'') (\<lambda>email.
      bind_prog (environ_get w ''PASSWORD'') (\<lambda>password.
        if py_not email \<or> py_not password
        then raise (ValueError ''EMAIL or PASSWORD environment variables are not set.'')
        else
          then_prog (await_at w 67 (Click sign_in_button))
          (then_prog (await_at w 70 (Fill (get_by_label ''Email or phone'') (the email)))
          (then_prog (await_at w 71 (Click (get_by_role ''button'' ''Next'')))
          (then_prog (await_at w 74 (WaitForSelector (''input[type='' @ [CHR 0x22] @ ''password''
                                        @ [CHR 0x22] @ '']'') ''visible''))
          (let password_field = get_by_label ''Enter your password'' in
           then_prog (await_at w 76 (Click password_field))
          (then_prog (await_at w 77 (Fill password_field (the password)))
          (then_prog (await_at w 78 (Press password_field ''Enter''))
          (then_prog (await_at w 81 (WaitForUrl ''https://mail.google.com/mail/u/0/'' 30000))
                     (logger_info ''Successfully signed in to Gmail.'')))))))))))"

text \<open>Lines 35 to 109: the body of the \<^verbatim>\<open>try\<close> statement.\<close>

definition compose_email_try ::
  "world \<Rightarrow> page \<Rightarrow> string \<Rightarrow> string \<Rightarrow> string \<Rightarrow> string \<Rightarrow> string prog" where
  "compose_email_try w pg function_name recipient subject body =
     then_prog (take_screenshots (function_name @ ''_start'') pg)
     (then_prog
        (if \<not> str_in ''mail.google.com'' (page_url w 37)
         then then_prog (logger_info ''Navigating to Gmail...'')
             (then_prog (await_at w 39 (Goto ''https://mail.google.com/'' ''networkidle''))
                        (logger_info (''Current URL after navigation: '' @ page_url w 40)))
         else return ())
     (let sign_in_button = get_by_role ''link'' ''Sign in'' in
      bind_prog (is_visible w sign_in_button) (\<lambda>visible.
      then_prog
        (if visible then sign_in w sign_in_button
         else logger_info ''No sign-in required. Proceeding with email composition.'')
     (then_prog (await_at w 88 (Click (get_by_role ''button'' ''Compose'')))
     (then_prog (await_at w 96 (WaitFor (get_by_text ''New Message'' True) ''visible''))
     (then_prog (logger_info ''Calling do_compose_email function...'')
     (bind_prog (do_compose_email w recipient subject body) (\<lambda>result.
        if str_in ''Error'' (summary_message result)
        then raise (ValueError (detailed_message result))
        else
          (let success_message = summary_message result in
           then_prog (logger_info success_message)
          (then_prog (notify_user success_message ACTION)
          (then_prog (take_screenshots (function_name @ ''_end'') pg)
                     (return success_message))))))))))))"

text \<open>Lines 111 to 121: the two \<^verbatim>\<open>except\<close> clauses, tried in the order of the source.\<close>

definition compose_email_except :: "world \<Rightarrow> exn \<Rightarrow> string prog" where
  "compose_email_except w e =
     (case e of
        PlaywrightTimeoutError _ \<Rightarrow>
          (let error_message = ''Timeout error: '' @ str e
                 @ ''. The page might be loading slowly or the element might not be present.'' in
           then_prog (logger_error error_message)
          (then_prog (notify_user error_message ERROR)
                     (raise (ValueError error_message))))
      | _ \<Rightarrow>
          (let error_message = ''Failed to compose email. Error: '' @ str e @ [CHR 0x0A]
                 @ format_exc w e in
           then_prog (logger_error error_message)
          (then_prog (notify_user error_message ERROR)
                     (raise (ValueError error_message)))))"

definition compose_email :: "world \<Rightarrow> string \<Rightarrow> string \<Rightarrow> string \<Rightarrow> string prog" where
  "compose_email w recipient subject body =
     then_prog (logger_info (''Starting compose_email function with recipient: '' @ recipient
                              @ '', subject: '' @ subject))
     (bind_prog (get_current_page w) (\<lambda>page.
        case page of
          None \<Rightarrow>
            (let error_message = ''Error: No active page found. OpenURL command opens a new page.'' in
             then_prog (logger_error error_message) (raise (ValueError error_message)))
        | Some pg \<Rightarrow>
            (let function_name = ''compose_email'' in
             try_except (compose_email_try w pg function_name recipient subject body)
                        (compose_email_except w))))"

section \<open>What a trace shows\<close>

text \<open>
  Predicates on events, used to read a trace: the keyboard actions of the sequencer,
  notifications, navigations, interactions with the page beyond the visibility query, and
  the events that only the sign-in branch (lines 60 to 82) produces.
\<close>

fun is_keyboard :: "event \<Rightarrow> bool" where
  "is_keyboard (KeyboardType text) = True"
| "is_keyboard (KeyboardPress key) = True"
| "is_keyboard _ = False"

definition keyboard_actions :: "event list \<Rightarrow> event list" where
  "keyboard_actions tr = filter is_keyboard tr"

fun is_notification :: "event \<Rightarrow> bool" where
  "is_notification (NotifyUser m ty) = True"
| "is_notification _ = False"

fun is_navigation :: "event \<Rightarrow> bool" where
  "is_navigation (Goto url wait_until) = True"
| "is_navigation _ = False"

fun is_page_interaction :: "event \<Rightarrow> bool" where
  "is_page_interaction (Click loc) = True"
| "is_page_interaction (Fill loc v) = True"
| "is_page_interaction (Press loc key) = True"
| "is_page_interaction (WaitForSelector sel st) = True"
| "is_page_interaction (WaitForUrl url ms) = True"
| "is_page_interaction (WaitFor loc st) = True"
| "is_page_interaction (KeyboardType text) = True"
| "is_page_interaction (KeyboardPress key) = True"
| "is_page_interaction _ = False"

fun is_sign_in_event :: "event \<Rightarrow> bool" where
  "is_sign_in_event (EnvironGet k) = True"
| "is_sign_in_event (Click loc) = (loc = get_by_role ''link'' ''Sign in'' \<or> loc = get_by_role ''button'' ''Next''
      \<or> loc = get_by_label ''Enter your password'')"
| "is_sign_in_event (Fill loc v) = True"
| "is_sign_in_event (Press loc key) = True"
| "is_sign_in_event (WaitForSelector sel st) = True"
| "is_sign_in_event (WaitForUrl url ms) = True"
| "is_sign_in_event _ = False"

text \<open>The lines of the five awaited keyboard calls of \<^verbatim>\<open>do_compose_email\<close>, in order.\<close>

definition typing_lines :: "nat list" where
  "typing_lines = [162, 163, 168, 169, 174]"

section \<open>Properties of programs\<close>

text \<open>
  \<open>silent P p\<close>: no event of \<open>p\<close> satisfies \<open>P\<close>. \<open>returns_only Q p\<close>: if \<open>p\<close> returns, the value
  satisfies \<open>Q\<close>. \<open>reach ev R p\<close>: if \<open>p\<close> performs the event \<open>ev\<close>, its result is \<open>R\<close>.
\<close>

definition silent :: "(event \<Rightarrow> bool) \<Rightarrow> 'a prog \<Rightarrow> bool" where
  "silent P p = (filter P (snd p) = [])"

definition returns_only :: "('a \<Rightarrow> bool) \<Rightarrow> 'a prog \<Rightarrow> bool" where
  "returns_only Q p = (case fst p of Inl e \<Rightarrow> True | Inr x \<Rightarrow> Q x)"

definition reach :: "event \<Rightarrow> (exn + 'a) \<Rightarrow> 'a prog \<Rightarrow> bool" where
  "reach ev R p = (if ev \<in> set (snd p) then fst p = R else True)"

section \<open>Example environments\<close>

text \<open>
  A session already signed in to Gmail in which every call completes; the same with no
  active page; the same with the first keyboard call raising; and a blank page that shows
  the sign-in link while \<^verbatim>\<open>EMAIL\<close> and \<^verbatim>\<open>PASSWORD\<close> are unset.
\<close>

definition world_signed_in :: world where
  "world_signed_in =
     \<lparr>current_page = Some 0,
      page_url = (\<lambda>l. ''https://mail.google.com/mail/u/0/''),
      sign_in_visible = Inr False,
      raises_at = (\<lambda>l. None),
      environ = (\<lambda>k. None),
      format_exc = (\<lambda>e. ''Traceback'')\<rparr>"

definition world_no_page :: world where
  "world_no_page = world_signed_in\<lparr>current_page := None\<rparr>"

definition world_typing_fails :: world where
  "world_typing_fails =
     world_signed_in\<lparr>raises_at := (\<lambda>l. if l = 162 then Some (Exception ''Target closed'') else None)\<rparr>"

definition world_sign_in_unset :: world where
  "world_sign_in_unset =
     world_signed_in\<lparr>page_url := (\<lambda>l. ''about:blank''), sign_in_visible := Inr True\<rparr>"

section \<open>Running programs: results and traces of the combinators\<close>

lemma fst_then_emit: "fst (then_prog (emit ev) k) = fst k"
  by (cases k) (simp add: then_prog_def bind_prog_def emit_def)

lemma snd_then_emit: "snd (then_prog (emit ev) k) = ev # snd k"
  by (cases k) (simp add: then_prog_def bind_prog_def emit_def)

lemma fst_then_await: "fst (then_prog (await_at w l ev) k) = (case raises_at w l of None \<Rightarrow> fst k | Some e \<Rightarrow> Inl e)"
  by (cases k) (simp add: then_prog_def bind_prog_def await_at_def split: option.splits)

lemma snd_then_await: "snd (then_prog (await_at w l ev) k) = ev # (case raises_at w l of None \<Rightarrow> snd k | Some e \<Rightarrow> [])"
  by (cases k) (simp add: then_prog_def bind_prog_def await_at_def split: option.splits)

lemma fst_bind_environ: "fst (bind_prog (environ_get w k) f) = fst (f (environ w k))"
  by (cases "f (environ w k)") (simp add: bind_prog_def environ_get_def)

lemma snd_bind_environ: "snd (bind_prog (environ_get w k) f) = EnvironGet k # snd (f (environ w k))"
  by (cases "f (environ w k)") (simp add: bind_prog_def environ_get_def)

lemma fst_bind_page: "fst (bind_prog (get_current_page w) f) = fst (f (current_page w))"
  by (cases "f (current_page w)") (simp add: bind_prog_def get_current_page_def)

lemma snd_bind_page: "snd (bind_prog (get_current_page w) f) = GetCurrentPage # snd (f (current_page w))"
  by (cases "f (current_page w)") (simp add: bind_prog_def get_current_page_def)

lemma fst_bind_visible: "fst (bind_prog (is_visible w loc) f) =
    (case sign_in_visible w of Inl e \<Rightarrow> Inl e | Inr v \<Rightarrow> fst (f v))"
  by (auto simp: bind_prog_def is_visible_def split: sum.splits prod.splits)

lemma snd_bind_visible: "snd (bind_prog (is_visible w loc) f) =
    IsVisible loc # (case sign_in_visible w of Inl e \<Rightarrow> [] | Inr v \<Rightarrow> snd (f v))"
  by (auto simp: bind_prog_def is_visible_def split: sum.splits prod.splits)

lemma fst_bind_prog: "fst (bind_prog m f) = (case fst m of Inl e \<Rightarrow> Inl e | Inr x \<Rightarrow> fst (f x))"
  by (cases m) (auto simp: bind_prog_def split: sum.splits prod.splits)

lemma snd_bind_prog: "snd (bind_prog m f) = snd m @ (case fst m of Inl e \<Rightarrow> [] | Inr x \<Rightarrow> snd (f x))"
  by (cases m) (auto simp: bind_prog_def split: sum.splits prod.splits)

lemma fst_try_except: "fst (try_except m h) = (case fst m of Inl e \<Rightarrow> fst (h e) | Inr x \<Rightarrow> Inr x)"
  by (cases m) (auto simp: try_except_def split: sum.splits prod.splits)

lemma snd_try_except: "snd (try_except m h) = snd m @ (case fst m of Inl e \<Rightarrow> snd (h e) | Inr x \<Rightarrow> [])"
  by (cases m) (auto simp: try_except_def split: sum.splits prod.splits)

lemma fst_return: "fst (return x) = Inr x"
  by (simp add: return_def)

lemma snd_return: "snd (return x) = []"
  by (simp add: return_def)

lemma fst_raise: "fst (raise e) = Inl e"
  by (simp add: raise_def)

lemma snd_raise: "snd (raise e) = []"
  by (simp add: raise_def)

lemma fst_emit: "fst (emit ev) = Inr ()"
  by (simp add: emit_def)

lemma snd_emit: "snd (emit ev) = [ev]"
  by (simp add: emit_def)

lemma then_then: "then_prog (then_prog a c) k = then_prog a (then_prog c k)"
  by (auto simp: then_prog_def bind_prog_def split: sum.splits prod.splits)

lemma then_bind: "then_prog (bind_prog m f) k = bind_prog m (\<lambda>x. then_prog (f x) k)"
  by (auto simp: then_prog_def bind_prog_def split: sum.splits prod.splits)

lemma then_return: "then_prog (return u) k = k"
  by (auto simp: then_prog_def bind_prog_def return_def split: sum.splits prod.splits)

lemma then_raise: "then_prog (raise e) k = raise e"
  by (auto simp: then_prog_def bind_prog_def raise_def split: sum.splits prod.splits)

lemma then_if: "then_prog (if c then a else d) k = (if c then then_prog a k else then_prog d k)"
  by simp

lemmas prim_defs = logger_debug_def logger_info_def logger_error_def take_screenshots_def
  notify_user_def keyboard_type_def keyboard_press_def

lemmas projs = fst_then_emit snd_then_emit fst_then_await snd_then_await
  fst_bind_environ snd_bind_environ fst_bind_page snd_bind_page fst_bind_visible snd_bind_visible
  fst_return snd_return fst_raise snd_raise fst_emit snd_emit
  then_then then_bind then_return then_raise then_if

section \<open>Substrings\<close>

lemma str_in_iff: "str_in n h \<longleftrightarrow> (\<exists>p s. h = p @ n @ s)"
proof (induction h)
  case Nil
  then show ?case by auto
next
  case (Cons c cs)
  show ?case
  proof
    assume "str_in n (c # cs)"
    then consider "prefix n (c # cs)" | "str_in n cs" by auto
    then show "\<exists>p s. c # cs = p @ n @ s"
    proof cases
      case 1
      then obtain s where "c # cs = n @ s" by (auto simp: prefix_def)
      then have "c # cs = [] @ n @ s" by simp
      then show ?thesis by blast
    next
      case 2
      with Cons.IH obtain p s where "cs = p @ n @ s" by blast
      then have "c # cs = (c # p) @ n @ s" by simp
      then show ?thesis by blast
    qed
  next
    assume "\<exists>p s. c # cs = p @ n @ s"
    then obtain p s where eq: "c # cs = p @ n @ s" by blast
    show "str_in n (c # cs)"
    proof (cases p)
      case Nil
      with eq have "prefix n (c # cs)" by (simp add: prefix_def)
      then show ?thesis by simp
    next
      case (Cons a p')
      with eq have "cs = p' @ n @ s" by simp
      with Cons.IH have "str_in n cs" by blast
      then show ?thesis by simp
    qed
  qed
qed

lemma str_in_middle: "str_in n r \<Longrightarrow> str_in n (a @ r @ c)"
proof -
  assume "str_in n r"
  then obtain p s where "r = p @ n @ s" by (auto simp: str_in_iff)
  then have "a @ r @ c = (a @ p) @ n @ (s @ c)" by simp
  then show ?thesis unfolding str_in_iff by blast
qed

lemma str_in_self_middle: "str_in r (a @ r @ c)"
  unfolding str_in_iff by blast

section \<open>The sequencer always returns; the handlers always raise\<close>

lemma seq_returns: "\<exists>out. fst (do_compose_email w r s b) = Inr out"
  by (simp add: do_compose_email_def prim_defs projs fst_try_except Let_def split: option.splits)

lemma fst_bind_seq: "fst (bind_prog (do_compose_email w r s b) f) = fst (f (projr (fst (do_compose_email w r s b))))"
  using seq_returns [of w r s b] by (auto simp: fst_bind_prog)

lemma snd_bind_seq: "snd (bind_prog (do_compose_email w r s b) f) =
    snd (do_compose_email w r s b) @ snd (f (projr (fst (do_compose_email w r s b))))"
  using seq_returns [of w r s b] by (auto simp: snd_bind_prog)

lemma except_run: "\<exists>m. compose_email_except w e = (Inl (ValueError m), [LogError m, NotifyUser m ERROR])"
  by (cases e) (simp_all add: compose_email_except_def prim_defs prod_eq_iff projs Let_def)

lemma filter_try_except:
  "(\<And>e. filter P (snd (h e)) = []) \<Longrightarrow> filter P (snd (try_except m h)) = filter P (snd m)"
  by (simp add: snd_try_except split: sum.splits)


section \<open>Rules for the properties of programs\<close>

text \<open>
  One rule for each combinator, so that a property of a function body is derived by
  following its structure.
\<close>

lemma silent_then: "silent P a \<Longrightarrow> silent P k \<Longrightarrow> silent P (then_prog a k)"
  by (auto simp: silent_def then_prog_def snd_bind_prog split: sum.splits)

lemma silent_bind: "silent P m \<Longrightarrow> (\<And>x. fst m = Inr x \<Longrightarrow> silent P (f x)) \<Longrightarrow> silent P (bind_prog m f)"
  by (auto simp: silent_def snd_bind_prog split: sum.splits)

lemma silent_try: "silent P m \<Longrightarrow> (\<And>e. fst m = Inl e \<Longrightarrow> silent P (h e)) \<Longrightarrow> silent P (try_except m h)"
  by (auto simp: silent_def snd_try_except split: sum.splits)

lemma silent_if: "(c \<Longrightarrow> silent P a) \<Longrightarrow> (\<not> c \<Longrightarrow> silent P d) \<Longrightarrow> silent P (if c then a else d)"
  by simp

lemma silent_emit: "\<not> P ev \<Longrightarrow> silent P (emit ev)"
  by (simp add: silent_def emit_def)

lemma silent_await: "\<not> P ev \<Longrightarrow> silent P (await_at w l ev)"
  by (simp add: silent_def await_at_def)

lemma silent_return: "silent P (return x)"
  by (simp add: silent_def return_def)

lemma silent_raise: "silent P (raise e)"
  by (simp add: silent_def raise_def)

lemma silent_visible: "\<not> P (IsVisible loc) \<Longrightarrow> silent P (is_visible w loc)"
  by (simp add: silent_def is_visible_def)

lemma silent_environ: "\<not> P (EnvironGet k) \<Longrightarrow> silent P (environ_get w k)"
  by (simp add: silent_def environ_get_def)

lemma silent_page: "\<not> P GetCurrentPage \<Longrightarrow> silent P (get_current_page w)"
  by (simp add: silent_def get_current_page_def)

lemmas silent_intros = silent_then silent_bind silent_try silent_if silent_emit silent_await
  silent_return silent_raise silent_visible silent_environ silent_page

lemma silent_filter_then: "silent P k \<Longrightarrow> filter P (snd (then_prog a k)) = filter P (snd a)"
  by (auto simp: silent_def then_prog_def snd_bind_prog split: sum.splits)

lemma silent_notin: "silent (\<lambda>x. x = ev) p \<Longrightarrow> ev \<notin> set (snd p)"
  by (auto simp: silent_def filter_empty_conv)

lemma returns_only_then: "returns_only Q k \<Longrightarrow> returns_only Q (then_prog a k)"
  by (auto simp: returns_only_def then_prog_def fst_bind_prog split: sum.splits)

lemma returns_only_bind: "(\<And>x. fst m = Inr x \<Longrightarrow> returns_only Q (f x)) \<Longrightarrow> returns_only Q (bind_prog m f)"
  by (auto simp: returns_only_def fst_bind_prog split: sum.splits)

lemma returns_only_if: "(c \<Longrightarrow> returns_only Q a) \<Longrightarrow> (\<not> c \<Longrightarrow> returns_only Q d) \<Longrightarrow> returns_only Q (if c then a else d)"
  by simp

lemma returns_only_raise: "returns_only Q (raise e)"
  by (simp add: returns_only_def raise_def)

lemma returns_only_return: "Q x \<Longrightarrow> returns_only Q (return x)"
  by (simp add: returns_only_def return_def)

lemmas returns_only_intros = returns_only_then returns_only_bind returns_only_if returns_only_raise
  returns_only_return

lemma reach_hit: "fst k = R \<Longrightarrow> reach ev R (then_prog (emit ev) k)"
  by (simp add: reach_def fst_then_emit)

lemma reach_then: "silent (\<lambda>x. x = ev) a \<Longrightarrow> reach ev R k \<Longrightarrow> reach ev R (then_prog a k)"
  using silent_notin [of ev a]
  by (auto simp: reach_def then_prog_def fst_bind_prog snd_bind_prog split: sum.splits if_splits)

lemma reach_bind: "silent (\<lambda>x. x = ev) m \<Longrightarrow> (\<And>x. fst m = Inr x \<Longrightarrow> reach ev R (f x)) \<Longrightarrow> reach ev R (bind_prog m f)"
  using silent_notin [of ev m]
  by (auto simp: reach_def fst_bind_prog snd_bind_prog split: sum.splits if_splits)

section \<open>The body of the guarded block and the whole invocation\<close>

lemma body_returns:
  "returns_only (\<lambda>m. m = summary_message (projr (fst (do_compose_email w r s b))) \<and> \<not> str_in ''Error'' m)
     (compose_email_try w pg fn r s b)"
  unfolding compose_email_try_def Let_def
  by (intro returns_only_intros) simp

lemma body_reach:
  "reach (LogInfo ''Calling do_compose_email function...'')
     (let out = projr (fst (do_compose_email w r s b)) in
      if str_in ''Error'' (summary_message out) then Inl (ValueError (detailed_message out))
      else Inr (summary_message out))
     (compose_email_try w pg fn r s b)"
  unfolding compose_email_try_def sign_in_def Let_def prim_defs
  by (intro reach_hit reach_then reach_bind silent_intros)
     (simp_all add: fst_bind_seq projs)

lemma compose_email_page:
  "current_page w = Some pg \<Longrightarrow>
     fst (compose_email w r s b) =
       fst (try_except (compose_email_try w pg ''compose_email'' r s b) (compose_email_except w))"
  "current_page w = Some pg \<Longrightarrow>
     snd (compose_email w r s b) =
       LogInfo (''Starting compose_email function with recipient: '' @ r @ '', subject: '' @ s)
       # GetCurrentPage
       # snd (try_except (compose_email_try w pg ''compose_email'' r s b) (compose_email_except w))"
  by (simp_all add: compose_email_def prim_defs projs Let_def)

lemma compose_email_no_page:
  "current_page w = None \<Longrightarrow> compose_email w r s b =
   (Inl (ValueError ''Error: No active page found. OpenURL command opens a new page.''),
    [LogInfo (''Starting compose_email function with recipient: '' @ r @ '', subject: '' @ s),
     GetCurrentPage, LogError ''Error: No active page found. OpenURL command opens a new page.''])"
  by (simp add: prod_eq_iff compose_email_def prim_defs projs Let_def)

lemma raised_cases: "fst (compose_email w r s b) = Inl e \<Longrightarrow>
   (case current_page w of
      None \<Rightarrow> e = ValueError ''Error: No active page found. OpenURL command opens a new page.''
             \<and> filter is_notification (snd (compose_email w r s b)) = []
    | Some pg \<Rightarrow> (\<exists>m. e = ValueError m \<and> last (snd (compose_email w r s b)) = NotifyUser m ERROR))"
proof (cases "current_page w")
  case None
  assume "fst (compose_email w r s b) = Inl e"
  with None show ?thesis by (simp add: compose_email_no_page)
next
  case (Some pg)
  assume raised: "fst (compose_email w r s b) = Inl e"
  let ?body = "compose_email_try w pg ''compose_email'' r s b"
  from raised Some obtain e' where body: "fst ?body = Inl e'"
    by (cases "fst ?body") (simp_all add: compose_email_page fst_try_except)
  obtain m where h: "compose_email_except w e' = (Inl (ValueError m), [LogError m, NotifyUser m ERROR])"
    using except_run by blast
  from raised Some body h have "e = ValueError m"
    by (simp add: compose_email_page fst_try_except)
  moreover from Some body h have "last (snd (compose_email w r s b)) = NotifyUser m ERROR"
    by (simp add: compose_email_page snd_try_except)
  ultimately show ?thesis using Some by simp
qed

lemma seq_ok:
  "\<forall>l\<in>set typing_lines. raises_at w l = None \<Longrightarrow>
   fst (do_compose_email w r s b) = Inr \<lparr>summary_message = ''Email composed successfully for '' @ r @ ''.'',
       detailed_message = (''Email composed successfully for '' @ r @ ''.'') @ '' Subject: '' @ [CHR 0x27] @ s
                     @ [CHR 0x27] @ '', Body: '' @ [CHR 0x27] @ take 50 b
                     @ ''...'' @ [CHR 0x27]\<rparr>"
  by (simp add: typing_lines_def do_compose_email_def prim_defs projs fst_try_except Let_def)

lemma seq_summary:
  "summary_message (projr (fst (do_compose_email w r s b))) =
     (if \<forall>l\<in>set typing_lines. raises_at w l = None
      then ''Email composed successfully for '' @ r @ ''.''
      else ''Error composing email for '' @ r @ ''.'')"
  by (auto simp add: typing_lines_def do_compose_email_def prim_defs projs fst_try_except Let_def split: option.splits)

lemma seq_keys:
  "keyboard_actions (snd (do_compose_email w r s b)) =
     take (Suc (length (takeWhile (\<lambda>l. raises_at w l = None) typing_lines)))
       [KeyboardType r, KeyboardPress ''Tab'', KeyboardType s, KeyboardPress ''Tab'', KeyboardType b]"
  by (simp add: keyboard_actions_def typing_lines_def do_compose_email_def prim_defs projs snd_try_except fst_try_except Let_def split: option.splits)

lemma error_marker: "str_in ''Error'' (''Error composing email for '' @ r @ ''.'')"
  by simp

lemma body_summary:
  assumes "fst (compose_email_try w pg fn r s b) = Inr msg"
  shows "msg = ''Email composed successfully for '' @ r @ ''.''"
proof -
  from assms body_returns [of w r s b pg fn]
  have m: "msg = summary_message (projr (fst (do_compose_email w r s b)))" and ne: "\<not> str_in ''Error'' msg"
    by (auto simp: returns_only_def)
  show ?thesis
  proof (cases "\<forall>l\<in>set typing_lines. raises_at w l = None")
    case True
    with m show ?thesis by (simp add: seq_summary)
  next
    case False
    with m have "msg = ''Error composing email for '' @ r @ ''.''" by (simp add: seq_summary)
    with ne error_marker [of r] show ?thesis by simp
  qed
qed

lemma returned_summary:
  assumes "fst (compose_email w r s b) = Inr msg"
  shows "msg = ''Email composed successfully for '' @ r @ ''.''"
proof (cases "current_page w")
  case None
  with assms show ?thesis by (simp add: compose_email_no_page)
next
  case (Some pg)
  let ?body = "compose_email_try w pg ''compose_email'' r s b"
  show ?thesis
  proof (cases "fst ?body")
    case (Inl e)
    obtain m where "compose_email_except w e = (Inl (ValueError m), [LogError m, NotifyUser m ERROR])"
      using except_run by blast
    with assms Some Inl show ?thesis by (simp add: compose_email_page fst_try_except)
  next
    case (Inr x)
    with assms Some have "x = msg" by (simp add: compose_email_page fst_try_except)
    with Inr body_summary show ?thesis by blast
  qed
qed

lemma except_message:
  "compose_email_except w (ValueError d) =
     (let m = ''Failed to compose email. Error: '' @ d @ [CHR 0x0A] @ format_exc w (ValueError d)
      in (Inl (ValueError m), [LogError m, NotifyUser m ERROR]))"
  by (simp add: compose_email_except_def prim_defs prod_eq_iff projs Let_def)

lemma except_silent:
  "(\<And>m. \<not> P (LogError m)) \<Longrightarrow> (\<And>m ty. \<not> P (NotifyUser m ty)) \<Longrightarrow> silent P (compose_email_except w e)"
  using except_run [of w e] by (auto simp: silent_def)

lemma seq_silent:
  "(\<And>m. \<not> P (LogDebug m)) \<Longrightarrow> (\<And>m. \<not> P (LogInfo m)) \<Longrightarrow> (\<And>m. \<not> P (LogError m)) \<Longrightarrow>
   (\<And>t. \<not> P (KeyboardType t)) \<Longrightarrow> (\<And>k. \<not> P (KeyboardPress k)) \<Longrightarrow>
   silent P (do_compose_email w r s b)"
  unfolding do_compose_email_def Let_def prim_defs
  by (intro silent_intros) simp_all

lemma marker_in_body:
  assumes "current_page w = Some pg"
    and "LogInfo ''Calling do_compose_email function...'' \<in> set (snd (compose_email w r s b))"
  shows "LogInfo ''Calling do_compose_email function...'' \<in> set (snd (compose_email_try w pg ''compose_email'' r s b))"
proof -
  let ?body = "compose_email_try w pg ''compose_email'' r s b"
  show ?thesis
  proof (cases "fst ?body")
    case (Inl e)
    obtain m where "compose_email_except w e = (Inl (ValueError m), [LogError m, NotifyUser m ERROR])"
      using except_run by blast
    with assms Inl show ?thesis by (simp add: compose_email_page snd_try_except)
  next
    case (Inr x)
    with assms show ?thesis by (simp add: compose_email_page snd_try_except)
  qed
qed

lemma escalation:
  assumes marker: "LogInfo ''Calling do_compose_email function...'' \<in> set (snd (compose_email w r s b))"
    and out: "fst (do_compose_email w r s b) = Inr out"
    and err: "str_in ''Error'' (summary_message out)"
  shows "fst (compose_email w r s b) =
           Inl (ValueError (''Failed to compose email. Error: '' @ detailed_message out @ [CHR 0x0A]
                  @ format_exc w (ValueError (detailed_message out))))"
proof (cases "current_page w")
  case None
  with marker show ?thesis by (simp add: compose_email_no_page)
next
  case (Some pg)
  let ?body = "compose_email_try w pg ''compose_email'' r s b"
  from marker_in_body [OF Some marker] body_reach [of w r s b pg "''compose_email''"] out err
  have "fst ?body = Inl (ValueError (detailed_message out))"
    by (simp add: reach_def Let_def)
  with Some show ?thesis
    by (simp add: compose_email_page fst_try_except except_message Let_def)
qed

lemma silent_case_option:
  "(x = None \<Longrightarrow> silent P a) \<Longrightarrow> (\<And>v. x = Some v \<Longrightarrow> silent P (f v)) \<Longrightarrow>
   silent P (case x of None \<Rightarrow> a | Some v \<Rightarrow> f v)"
  by (cases x) simp_all

lemma no_sign_in_events:
  assumes "sign_in_visible w \<noteq> Inr True"
  shows "silent is_sign_in_event (compose_email w r s b)"
  using assms
  unfolding compose_email_def compose_email_try_def Let_def prim_defs
  by (intro silent_intros silent_case_option except_silent seq_silent)
     (simp_all add: is_visible_def)

lemma visible_not_true:
  "sign_in_visible w \<noteq> Inr True \<Longrightarrow>
   bind_prog (is_visible w loc) (\<lambda>v. then_prog (if v then a else c) k) =
   bind_prog (is_visible w loc) (\<lambda>v. then_prog c k)"
  by (cases "sign_in_visible w") (auto simp: bind_prog_def is_visible_def)

lemma environ_irrelevant:
  "await_at (w\<lparr>environ := env\<rparr>) l ev = await_at w l ev"
  "is_visible (w\<lparr>environ := env\<rparr>) loc = is_visible w loc"
  "get_current_page (w\<lparr>environ := env\<rparr>) = get_current_page w"
  "page_url (w\<lparr>environ := env\<rparr>) = page_url w"
  by (simp_all add: await_at_def is_visible_def get_current_page_def)

lemma except_environ: "compose_email_except (w\<lparr>environ := env\<rparr>) e = compose_email_except w e"
  by (cases e) (simp_all add: compose_email_except_def)

lemma seq_environ: "do_compose_email (w\<lparr>environ := env\<rparr>) r s b = do_compose_email w r s b"
  unfolding do_compose_email_def keyboard_type_def keyboard_press_def environ_irrelevant ..

lemma compose_email_environ:
  assumes "sign_in_visible w \<noteq> Inr True"
  shows "compose_email (w\<lparr>environ := env\<rparr>) r s b = compose_email w r s b"
proof -
  have eta: "compose_email_except (w\<lparr>environ := env\<rparr>) = compose_email_except w"
    by (rule ext) (rule except_environ)
  show ?thesis
    unfolding compose_email_def compose_email_try_def Let_def
    by (simp only: environ_irrelevant seq_environ eta visible_not_true [OF assms] world.simps)
qed

lemma event_in_body:
  assumes "current_page w = Some pg"
    and "ev \<in> set (snd (compose_email w r s b))"
    and "\<And>m. ev \<noteq> LogInfo m" "\<And>m. ev \<noteq> LogError m" "\<And>m ty. ev \<noteq> NotifyUser m ty" "ev \<noteq> GetCurrentPage"
  shows "ev \<in> set (snd (compose_email_try w pg ''compose_email'' r s b))"
proof -
  let ?body = "compose_email_try w pg ''compose_email'' r s b"
  show ?thesis
  proof (cases "fst ?body")
    case (Inl e)
    obtain m where "compose_email_except w e = (Inl (ValueError m), [LogError m, NotifyUser m ERROR])"
      using except_run by blast
    with assms Inl show ?thesis by (simp add: compose_email_page snd_try_except)
  next
    case (Inr x)
    with assms show ?thesis by (simp add: compose_email_page snd_try_except)
  qed
qed

lemma navigation:
  assumes "current_page w = Some pg"
  shows "filter is_navigation (snd (compose_email w r s b)) =
     (if str_in ''mail.google.com'' (page_url w 37) then []
      else [Goto ''https://mail.google.com/'' ''networkidle''])"
proof -
  let ?body = "compose_email_try w pg ''compose_email'' r s b"
  have h: "\<And>e. filter is_navigation (snd (compose_email_except w e)) = []"
    using except_silent [of is_navigation w] by (simp add: silent_def)
  have "filter is_navigation (snd (compose_email w r s b)) = filter is_navigation (snd ?body)"
    using assms by (simp add: compose_email_page filter_try_except h)
  also have "\<dots> = (if str_in ''mail.google.com'' (page_url w 37) then []
      else [Goto ''https://mail.google.com/'' ''networkidle''])"
    unfolding compose_email_try_def sign_in_def Let_def prim_defs
    apply (simp only: snd_then_emit filter.simps is_navigation.simps if_False)
    apply (subst silent_filter_then)
     apply (intro silent_intros seq_silent; simp)
    apply (simp add: projs split: option.splits)
    done
  finally show ?thesis .
qed

lemma body_missing_credentials:
  assumes seen: "IsVisible (get_by_role ''link'' ''Sign in'') \<in> set (snd (compose_email_try w pg fn r s b))"
    and visible: "sign_in_visible w = Inr True"
    and missing: "py_not (environ w ''EMAIL'') \<or> py_not (environ w ''PASSWORD'')"
  shows "fst (compose_email_try w pg fn r s b) =
           Inl (ValueError ''EMAIL or PASSWORD environment variables are not set.'')
         \<and> filter is_page_interaction (snd (compose_email_try w pg fn r s b)) = []"
proof (cases "str_in ''mail.google.com'' (page_url w 37)")
  case True
  with visible missing show ?thesis
    by (simp add: compose_email_try_def sign_in_def prim_defs projs Let_def)
next
  case False
  show ?thesis
  proof (cases "raises_at w 39")
    case None
    with False visible missing show ?thesis
      by (simp add: compose_email_try_def sign_in_def prim_defs projs Let_def)
  next
    case (Some e)
    with False seen show ?thesis
      by (simp add: compose_email_try_def sign_in_def prim_defs projs Let_def)
  qed
qed

section \<open>The run in which nothing fails, and the example environments\<close>

lemma success_run:
  assumes "current_page w = Some pg" and "sign_in_visible w = Inr False"
    and "\<forall>l. raises_at w l = None"
    and "\<not> str_in ''Error'' (''Email composed successfully for '' @ r @ ''.'')"
  shows "fst (compose_email w r s b) = Inr (''Email composed successfully for '' @ r @ ''.'')"
proof -
  have ok: "\<forall>l\<in>set typing_lines. raises_at w l = None" using assms(3) by simp
  have "fst (compose_email_try w pg ''compose_email'' r s b) = Inr (''Email composed successfully for '' @ r @ ''.'')"
    using assms(2,3,4) seq_ok [OF ok, of r s b]
    by (simp add: compose_email_try_def prim_defs projs fst_bind_seq Let_def)
  with assms(1) show ?thesis by (simp add: compose_email_page fst_try_except)
qed

lemma marker_typing_fails:
  "LogInfo ''Calling do_compose_email function...''
     \<in> set (snd (compose_email world_typing_fails ''a@b.com'' ''Hi'' ''Hello there''))"
  by (simp add: world_typing_fails_def world_signed_in_def compose_email_def compose_email_try_def
      prim_defs projs snd_try_except snd_bind_seq Let_def)

lemma marker_signed_in:
  "LogInfo ''Calling do_compose_email function...''
     \<in> set (snd (compose_email world_signed_in ''Error@x.com'' ''Hi'' ''Hello there''))"
  by (simp add: world_signed_in_def compose_email_def compose_email_try_def
      prim_defs projs snd_try_except snd_bind_seq Let_def)

lemma seen_sign_in_unset:
  "IsVisible (get_by_role ''link'' ''Sign in'')
     \<in> set (snd (compose_email world_sign_in_unset ''a@b.com'' ''Hi'' ''Hello there''))"
  by (simp add: world_sign_in_unset_def world_signed_in_def compose_email_def compose_email_try_def
      prim_defs projs snd_try_except snd_bind_seq Let_def)

lemma missing_credentials:
  assumes seen: "IsVisible (get_by_role ''link'' ''Sign in'') \<in> set (snd (compose_email w r s b))"
    and visible: "sign_in_visible w = Inr True"
    and missing: "py_not (environ w ''EMAIL'') \<or> py_not (environ w ''PASSWORD'')"
  shows "fst (compose_email w r s b) =
         Inl (ValueError (''Failed to compose email. Error: ''
                @ ''EMAIL or PASSWORD environment variables are not set.'' @ [CHR 0x0A]
                @ format_exc w (ValueError ''EMAIL or PASSWORD environment variables are not set.'')))"
proof (cases "current_page w")
  case None
  with seen show ?thesis by (simp add: compose_email_no_page)
next
  case (Some pg)
  from event_in_body [OF Some seen]
  have "IsVisible (get_by_role ''link'' ''Sign in'')
          \<in> set (snd (compose_email_try w pg ''compose_email'' r s b))"
    by simp
  from body_missing_credentials [OF this visible missing] Some show ?thesis
    by (simp add: compose_email_page fst_try_except except_message Let_def)
qed

lemma missing_credentials_trace:
  assumes seen: "IsVisible (get_by_role ''link'' ''Sign in'') \<in> set (snd (compose_email w r s b))"
    and visible: "sign_in_visible w = Inr True"
    and missing: "py_not (environ w ''EMAIL'') \<or> py_not (environ w ''PASSWORD'')"
  shows "filter is_page_interaction (snd (compose_email w r s b)) = []"
proof (cases "current_page w")
  case None
  with seen show ?thesis by (simp add: compose_email_no_page)
next
  case (Some pg)
  from event_in_body [OF Some seen]
  have "IsVisible (get_by_role ''link'' ''Sign in'')
          \<in> set (snd (compose_email_try w pg ''compose_email'' r s b))"
    by simp
  from body_missing_credentials [OF this visible missing] Some show ?thesis
    by (simp add: compose_email_page snd_try_except except_message Let_def)
qed

section \<open>The claims\<close>

text \<open>
  C1. Every invocation of \<^verbatim>\<open>compose_email\<close> yields exactly one of a returned message and a
  raised error. Whenever the invocation has called the Field-Fill Sequencer (its trace
  holds the log line written just before the call) and the outcome the sequencer returns
  has a summary containing \<^verbatim>\<open>Error\<close>, the invocation raises a \<^verbatim>\<open>ValueError\<close> whose message
  carries the outcome's detailed message, instead of returning.
\<close>

theorem entry_point_returns_or_escalates:
  "((\<exists>msg. fst (compose_email w r s b) = Inr msg) \<noteq> (\<exists>e. fst (compose_email w r s b) = Inl e))
   \<and> (LogInfo ''Calling do_compose_email function...'' \<in> set (snd (compose_email w r s b))
        \<and> fst (do_compose_email w r s b) = Inr out
        \<and> str_in ''Error'' (summary_message out)
      \<longrightarrow> (\<exists>m. fst (compose_email w r s b) = Inl (ValueError m)
                \<and> str_in (detailed_message out) m
                \<and> m = ''Failed to compose email. Error: '' @ detailed_message out @ [CHR 0x0A]
                        @ format_exc w (ValueError (detailed_message out))))"
proof
  show "(\<exists>msg. fst (compose_email w r s b) = Inr msg) \<noteq> (\<exists>e. fst (compose_email w r s b) = Inl e)"
    by (cases "fst (compose_email w r s b)") simp_all
next
  show "LogInfo ''Calling do_compose_email function...'' \<in> set (snd (compose_email w r s b))
        \<and> fst (do_compose_email w r s b) = Inr out
        \<and> str_in ''Error'' (summary_message out)
      \<longrightarrow> (\<exists>m. fst (compose_email w r s b) = Inl (ValueError m)
                \<and> str_in (detailed_message out) m
                \<and> m = ''Failed to compose email. Error: '' @ detailed_message out @ [CHR 0x0A]
                        @ format_exc w (ValueError (detailed_message out)))"
    using escalation [of w r s b out] str_in_self_middle [of "detailed_message out"]
    by blast
qed

theorem entry_point_returns_or_escalates_witness:
  "LogInfo ''Calling do_compose_email function...''
     \<in> set (snd (compose_email world_typing_fails ''a@b.com'' ''Hi'' ''Hello there''))
   \<and> str_in ''Error'' ''Error composing email for a@b.com.''
   \<and> fst (compose_email world_typing_fails ''a@b.com'' ''Hi'' ''Hello there'') =
       Inl (ValueError (''Failed to compose email. Error: ''
              @ ''Error composing email for a@b.com. Error: Target closed'' @ [CHR 0x0A]
              @ ''Traceback''))"
proof -
  let ?out = "\<lparr>summary_message = ''Error composing email for a@b.com.'',
               detailed_message = ''Error composing email for a@b.com. Error: Target closed''\<rparr>"
  have out: "fst (do_compose_email world_typing_fails ''a@b.com'' ''Hi'' ''Hello there'') = Inr ?out"
    by (simp add: world_typing_fails_def world_signed_in_def do_compose_email_def prim_defs projs
        fst_try_except Let_def)
  have err: "str_in ''Error'' (summary_message ?out)"
    by simp
  from entry_point_returns_or_escalates
         [of world_typing_fails "''a@b.com''" "''Hi''" "''Hello there''" ?out]
       marker_typing_fails out err
  have "fst (compose_email world_typing_fails ''a@b.com'' ''Hi'' ''Hello there'') =
          Inl (ValueError (''Failed to compose email. Error: '' @ detailed_message ?out @ [CHR 0x0A]
                 @ format_exc world_typing_fails (ValueError (detailed_message ?out))))"
    by blast
  then show ?thesis
    using marker_typing_fails by (simp add: world_typing_fails_def world_signed_in_def)
qed

text \<open>
  C2, as stated: every failure of \<^verbatim>\<open>compose_email\<close> is reported through the notification
  channel before it is raised. It fails for the precondition failure: with no active page
  the error is logged and raised, and \<^verbatim>\<open>notify_user\<close> is never called.
\<close>

theorem precondition_failure_not_notified:
  "fst (compose_email world_no_page ''a@b.com'' ''Hi'' ''Hello there'') =
     Inl (ValueError ''Error: No active page found. OpenURL command opens a new page.'')
   \<and> filter is_notification (snd (compose_email world_no_page ''a@b.com'' ''Hi'' ''Hello there'')) = []"
  by (simp add: compose_email_no_page world_no_page_def world_signed_in_def)

text \<open>
  C2, amended: every failure raised from inside the guarded block (configuration,
  UI-timing and generic failures, that is every failure of an invocation that has an active
  page) is a \<^verbatim>\<open>ValueError\<close> whose message was passed to \<^verbatim>\<open>notify_user\<close> with severity
  \<^verbatim>\<open>ERROR\<close> as the last action before raising. The precondition failure (no active page) is
  raised without any notification.
\<close>

theorem failures_notified_except_precondition:
  "fst (compose_email w r s b) = Inl e \<Longrightarrow>
     (case current_page w of
        None \<Rightarrow>
          e = ValueError ''Error: No active page found. OpenURL command opens a new page.''
          \<and> filter is_notification (snd (compose_email w r s b)) = []
      | Some pg \<Rightarrow>
          (\<exists>m. e = ValueError m \<and> last (snd (compose_email w r s b)) = NotifyUser m ERROR))"
  by (rule raised_cases)

theorem failures_notified_except_precondition_witness:
  "fst (compose_email world_sign_in_unset ''a@b.com'' ''Hi'' ''Hello there'') =
     Inl (ValueError (''Failed to compose email. Error: ''
            @ ''EMAIL or PASSWORD environment variables are not set.'' @ [CHR 0x0A] @ ''Traceback''))
   \<and> last (snd (compose_email world_sign_in_unset ''a@b.com'' ''Hi'' ''Hello there'')) =
       NotifyUser (''Failed to compose email. Error: ''
            @ ''EMAIL or PASSWORD environment variables are not set.'' @ [CHR 0x0A] @ ''Traceback'') ERROR"
proof -
  have raised: "fst (compose_email world_sign_in_unset ''a@b.com'' ''Hi'' ''Hello there'') =
     Inl (ValueError (''Failed to compose email. Error: ''
            @ ''EMAIL or PASSWORD environment variables are not set.'' @ [CHR 0x0A] @ ''Traceback''))"
    using missing_credentials [OF seen_sign_in_unset]
    by (simp add: world_sign_in_unset_def world_signed_in_def py_not_def)
  have page: "current_page world_sign_in_unset = Some 0"
    by (simp add: world_sign_in_unset_def world_signed_in_def)
  from failures_notified_except_precondition [OF raised] page
  have "last (snd (compose_email world_sign_in_unset ''a@b.com'' ''Hi'' ''Hello there'')) =
       NotifyUser (''Failed to compose email. Error: ''
            @ ''EMAIL or PASSWORD environment variables are not set.'' @ [CHR 0x0A] @ ''Traceback'') ERROR"
    by simp
  with raised show ?thesis by simp
qed

text \<open>
  C3. \<^verbatim>\<open>do_compose_email\<close> never raises: for every environment and every input it returns an
  outcome, and when one of its five keyboard calls raises, the outcome's summary contains
  \<^verbatim>\<open>Error\<close> and the recipient.
\<close>

theorem sequencer_never_raises:
  "\<exists>out. fst (do_compose_email w r s b) = Inr out
     \<and> ((\<exists>l\<in>set typing_lines. raises_at w l \<noteq> None)
          \<longrightarrow> str_in ''Error'' (summary_message out) \<and> str_in r (summary_message out))"
proof -
  obtain out where out: "fst (do_compose_email w r s b) = Inr out"
    using seq_returns by blast
  have "str_in ''Error'' (summary_message out) \<and> str_in r (summary_message out)"
    if "\<exists>l\<in>set typing_lines. raises_at w l \<noteq> None"
  proof -
    from that out seq_summary [of w r s b]
    have "summary_message out = ''Error composing email for '' @ r @ ''.''"
      by auto
    then show ?thesis
      using error_marker [of r] str_in_self_middle [of r "''Error composing email for ''" "''.''"]
      by simp
  qed
  with out show ?thesis by blast
qed

theorem sequencer_never_raises_witness:
  "(\<exists>l\<in>set typing_lines. raises_at world_typing_fails l \<noteq> None)
   \<and> (\<exists>out. fst (do_compose_email world_typing_fails ''a@b.com'' ''Hi'' ''Hello there'') = Inr out
         \<and> str_in ''Error'' (summary_message out) \<and> str_in ''a@b.com'' (summary_message out))"
proof -
  have fails: "\<exists>l\<in>set typing_lines. raises_at world_typing_fails l \<noteq> None"
    by (simp add: typing_lines_def world_typing_fails_def world_signed_in_def)
  with sequencer_never_raises [of world_typing_fails "''a@b.com''" "''Hi''" "''Hello there''"]
  show ?thesis by blast
qed

text \<open>
  C4, as stated: every invocation of the sequencer performs exactly three type actions and
  two focus-advance actions. It fails when a keyboard call raises: if typing the recipient
  raises, that one type action is all the sequencer performs.
\<close>

theorem sequencer_stops_at_failure:
  "keyboard_actions (snd (do_compose_email world_typing_fails ''a@b.com'' ''Hi'' ''Hello there''))
     = [KeyboardType ''a@b.com'']"
  by (simp add: seq_keys typing_lines_def world_typing_fails_def world_signed_in_def)

text \<open>
  C4, amended: the sequencer performs the keyboard actions type recipient, Tab, type
  subject, Tab, type body in this order, up to and including the first one that raises;
  when none raises it performs exactly these three type actions and two focus-advance
  actions, with no focus-advance after the body.
\<close>

theorem sequencer_keyboard_actions:
  "keyboard_actions (snd (do_compose_email w r s b)) =
     take (Suc (length (takeWhile (\<lambda>l. raises_at w l = None) typing_lines)))
       [KeyboardType r, KeyboardPress ''Tab'', KeyboardType s, KeyboardPress ''Tab'', KeyboardType b]
   \<and> ((\<forall>l\<in>set typing_lines. raises_at w l = None) \<longrightarrow>
        keyboard_actions (snd (do_compose_email w r s b)) =
          [KeyboardType r, KeyboardPress ''Tab'', KeyboardType s, KeyboardPress ''Tab'', KeyboardType b])"
proof -
  have "takeWhile (\<lambda>l. raises_at w l = None) typing_lines = typing_lines"
    if "\<forall>l\<in>set typing_lines. raises_at w l = None"
    using that by (simp add: takeWhile_eq_all_conv)
  then show ?thesis
    by (auto simp: seq_keys) (simp add: typing_lines_def)
qed

theorem sequencer_keyboard_actions_witness:
  "list_all (\<lambda>l. raises_at world_signed_in l = None) typing_lines
   \<and> keyboard_actions (snd (do_compose_email world_signed_in ''a@b.com'' ''Hi'' ''Hello there'')) =
       [KeyboardType ''a@b.com'', KeyboardPress ''Tab'', KeyboardType ''Hi'', KeyboardPress ''Tab'',
        KeyboardType ''Hello there'']"
proof -
  have ok: "\<forall>l\<in>set typing_lines. raises_at world_signed_in l = None"
    by (simp add: world_signed_in_def)
  with sequencer_keyboard_actions [of world_signed_in "''a@b.com''" "''Hi''" "''Hello there''"]
  have "keyboard_actions (snd (do_compose_email world_signed_in ''a@b.com'' ''Hi'' ''Hello there'')) =
       [KeyboardType ''a@b.com'', KeyboardPress ''Tab'', KeyboardType ''Hi'', KeyboardPress ''Tab'',
        KeyboardType ''Hello there'']"
    by blast
  with ok show ?thesis by (simp only: list_all_iff simp_thms)
qed

text \<open>
  C5. If the invocation has queried the sign-in link and found it visible, and \<^verbatim>\<open>EMAIL\<close> or
  \<^verbatim>\<open>PASSWORD\<close> is absent from the environment (or empty), it raises the configuration error,
  wrapped by the generic handler, and its trace holds no click, fill, key press, wait or
  typing at all: nothing of the sign-in sequence was attempted.
\<close>

theorem missing_credentials_raise_before_sign_in:
  "\<lbrakk>IsVisible (get_by_role ''link'' ''Sign in'') \<in> set (snd (compose_email w r s b));
    sign_in_visible w = Inr True;
    py_not (environ w ''EMAIL'') \<or> py_not (environ w ''PASSWORD'')\<rbrakk>
   \<Longrightarrow> fst (compose_email w r s b) =
         Inl (ValueError (''Failed to compose email. Error: ''
                @ ''EMAIL or PASSWORD environment variables are not set.'' @ [CHR 0x0A]
                @ format_exc w (ValueError ''EMAIL or PASSWORD environment variables are not set.'')))
       \<and> filter is_page_interaction (snd (compose_email w r s b)) = []"
  using missing_credentials missing_credentials_trace by blast

theorem missing_credentials_raise_before_sign_in_witness:
  "IsVisible (get_by_role ''link'' ''Sign in'')
     \<in> set (snd (compose_email world_sign_in_unset ''a@b.com'' ''Hi'' ''Hello there''))
   \<and> sign_in_visible world_sign_in_unset = Inr True
   \<and> py_not (environ world_sign_in_unset ''EMAIL'')
   \<and> filter is_page_interaction
        (snd (compose_email world_sign_in_unset ''a@b.com'' ''Hi'' ''Hello there'')) = []"
proof -
  have visible: "sign_in_visible world_sign_in_unset = Inr True"
    by (simp add: world_sign_in_unset_def world_signed_in_def)
  have unset: "py_not (environ world_sign_in_unset ''EMAIL'')"
    by (simp add: world_sign_in_unset_def world_signed_in_def py_not_def)
  then have "py_not (environ world_sign_in_unset ''EMAIL'') \<or> py_not (environ world_sign_in_unset ''PASSWORD'')"
    by simp
  from missing_credentials_raise_before_sign_in [OF seen_sign_in_unset visible this]
  show ?thesis using seen_sign_in_unset visible unset by blast
qed

text \<open>
  C6. If the sign-in link is not reported visible (\<^verbatim>\<open>is_visible()\<close> answers false or raises),
  the trace holds no read of the environment and no step of the sign-in sequence, and the
  whole invocation, result and trace, is the same for any two environments.
\<close>

theorem no_sign_in_no_credential_reads:
  "sign_in_visible w \<noteq> Inr True \<Longrightarrow>
     filter is_sign_in_event (snd (compose_email w r s b)) = []
     \<and> compose_email (w\<lparr>environ := env1\<rparr>) r s b = compose_email (w\<lparr>environ := env2\<rparr>) r s b"
  using no_sign_in_events [of w r s b]
    compose_email_environ [of w env1 r s b] compose_email_environ [of w env2 r s b]
  by (simp add: silent_def)

theorem no_sign_in_no_credential_reads_witness:
  "sign_in_visible world_signed_in \<noteq> Inr True
   \<and> filter is_sign_in_event (snd (compose_email world_signed_in ''a@b.com'' ''Hi'' ''Hello there'')) = []
   \<and> compose_email (world_signed_in\<lparr>environ := (\<lambda>k. None)\<rparr>) ''a@b.com'' ''Hi'' ''Hello there'' =
       compose_email (world_signed_in\<lparr>environ := (\<lambda>k. Some ''secret'')\<rparr>) ''a@b.com'' ''Hi'' ''Hello there''"
proof -
  have hidden: "sign_in_visible world_signed_in \<noteq> Inr True"
    by (simp add: world_signed_in_def)
  from no_sign_in_no_credential_reads [OF hidden] hidden
  show ?thesis by blast
qed

text \<open>
  C7. With no active page \<^verbatim>\<open>compose_email\<close> raises the precondition error at once: the whole
  invocation is the start log line, the call of \<^verbatim>\<open>get_current_page\<close> and the error log line;
  there is no navigation, no screenshot and no other browser interaction.
\<close>

theorem no_active_page_raises_immediately:
  "current_page w = None \<Longrightarrow>
     compose_email w r s b =
       (Inl (ValueError ''Error: No active page found. OpenURL command opens a new page.''),
        [LogInfo (''Starting compose_email function with recipient: '' @ r @ '', subject: '' @ s),
         GetCurrentPage,
         LogError ''Error: No active page found. OpenURL command opens a new page.''])"
  by (rule compose_email_no_page)

theorem no_active_page_raises_immediately_witness:
  "current_page world_no_page = None
   \<and> compose_email world_no_page ''a@b.com'' ''Hi'' ''Hello there'' =
       (Inl (ValueError ''Error: No active page found. OpenURL command opens a new page.''),
        [LogInfo ''Starting compose_email function with recipient: a@b.com, subject: Hi'',
         GetCurrentPage,
         LogError ''Error: No active page found. OpenURL command opens a new page.''])"
proof -
  have none: "current_page world_no_page = None"
    by (simp add: world_no_page_def world_signed_in_def)
  from no_active_page_raises_immediately [OF none, of "''a@b.com''" "''Hi''"] none
  show ?thesis by simp
qed



text \<open>
  C9. For recipient \<^verbatim>\<open>a@b.com\<close>, subject \<^verbatim>\<open>Hi\<close> and body \<^verbatim>\<open>Hello there\<close>, with an active page, the
  sign-in link not visible and no awaited call raising, \<^verbatim>\<open>compose_email\<close> returns exactly
  \<^verbatim>\<open>Email composed successfully for a@b.com.\<close> and performs no step of the sign-in sequence.
  For every input, whatever \<^verbatim>\<open>compose_email\<close> returns is the success summary of its recipient,
  which contains the recipient.
\<close>

theorem success_summary_names_recipient:
  "(current_page w \<noteq> None \<and> sign_in_visible w = Inr False \<and> (\<forall>l. raises_at w l = None)
      \<longrightarrow> fst (compose_email w ''a@b.com'' ''Hi'' ''Hello there'') =
            Inr ''Email composed successfully for a@b.com.''
          \<and> filter is_sign_in_event (snd (compose_email w ''a@b.com'' ''Hi'' ''Hello there'')) = [])
   \<and> (\<forall>msg. fst (compose_email w r s b) = Inr msg
         \<longrightarrow> msg = ''Email composed successfully for '' @ r @ ''.'' \<and> str_in r msg)"
proof (intro conjI impI allI)
  assume h: "current_page w \<noteq> None \<and> sign_in_visible w = Inr False \<and> (\<forall>l. raises_at w l = None)"
  then obtain pg where page: "current_page w = Some pg" by auto
  have "\<not> str_in ''Error'' (''Email composed successfully for '' @ ''a@b.com'' @ ''.'')"
    by simp
  from success_run [OF page _ _ this, of "''Hi''" "''Hello there''"] h
  show "fst (compose_email w ''a@b.com'' ''Hi'' ''Hello there'') =
          Inr ''Email composed successfully for a@b.com.''"
    by simp
  from h have "sign_in_visible w \<noteq> Inr True" by simp
  from no_sign_in_events [OF this]
  show "filter is_sign_in_event (snd (compose_email w ''a@b.com'' ''Hi'' ''Hello there'')) = []"
    by (simp add: silent_def)
next
  fix msg
  assume "fst (compose_email w r s b) = Inr msg"
  then show "msg = ''Email composed successfully for '' @ r @ ''.''"
    by (rule returned_summary)
  then show "str_in r msg"
    using str_in_self_middle [of r "''Email composed successfully for ''" "''.''"] by simp
qed

theorem success_summary_names_recipient_witness:
  "current_page world_signed_in \<noteq> None
   \<and> sign_in_visible world_signed_in = Inr False
   \<and> (\<forall>l. raises_at world_signed_in l = None)
   \<and> fst (compose_email world_signed_in ''a@b.com'' ''Hi'' ''Hello there'') =
       Inr ''Email composed successfully for a@b.com.''
   \<and> str_in ''a@b.com'' ''Email composed successfully for a@b.com.''"
proof -
  have h: "current_page world_signed_in \<noteq> None \<and> sign_in_visible world_signed_in = Inr False
           \<and> (\<forall>l. raises_at world_signed_in l = None)"
    by (simp add: world_signed_in_def)
  from success_summary_names_recipient
         [of world_signed_in "''a@b.com''" "''Hi''" "''Hello there''"] h
  have r: "fst (compose_email world_signed_in ''a@b.com'' ''Hi'' ''Hello there'') =
             Inr ''Email composed successfully for a@b.com.''"
    and n: "\<forall>msg. fst (compose_email world_signed_in ''a@b.com'' ''Hi'' ''Hello there'') = Inr msg
              \<longrightarrow> str_in ''a@b.com'' msg"
    by blast+
  from n r have "str_in ''a@b.com'' ''Email composed successfully for a@b.com.''"
    by blast
  with h r show ?thesis by blast
qed

text \<open>
  C10. The entry point tests whether \<^verbatim>\<open>Error\<close> occurs in the outcome's summary, and the
  success summary contains the recipient. So when the recipient contains \<^verbatim>\<open>Error\<close>, as
  \<^verbatim>\<open>Error@x.com\<close> does, and the sequencer is called and none of its keyboard calls raises, all
  five keyboard actions are performed, the sequencer returns its success outcome, and the
  invocation nevertheless raises a \<^verbatim>\<open>ValueError\<close> instead of returning.
\<close>

theorem recipient_with_error_marker_raises:
  "\<lbrakk>str_in ''Error'' r;
    LogInfo ''Calling do_compose_email function...'' \<in> set (snd (compose_email w r s b));
    \<forall>l\<in>set typing_lines. raises_at w l = None\<rbrakk>
   \<Longrightarrow> keyboard_actions (snd (do_compose_email w r s b)) =
         [KeyboardType r, KeyboardPress ''Tab'', KeyboardType s, KeyboardPress ''Tab'', KeyboardType b]
       \<and> summary_message (projr (fst (do_compose_email w r s b))) =
           ''Email composed successfully for '' @ r @ ''.''
       \<and> (\<exists>m. fst (compose_email w r s b) = Inl (ValueError m))"
proof -
  assume marked: "str_in ''Error'' r"
    and called: "LogInfo ''Calling do_compose_email function...'' \<in> set (snd (compose_email w r s b))"
    and ok: "\<forall>l\<in>set typing_lines. raises_at w l = None"
  obtain out where out: "fst (do_compose_email w r s b) = Inr out"
    using seq_returns by blast
  with ok seq_summary [of w r s b]
  have summary: "summary_message out = ''Email composed successfully for '' @ r @ ''.''"
    by simp
  with marked have "str_in ''Error'' (summary_message out)"
    using str_in_middle [of "''Error''" r "''Email composed successfully for ''" "''.''"] by simp
  from escalation [OF called out this]
  have "\<exists>m. fst (compose_email w r s b) = Inl (ValueError m)" by blast
  moreover from ok have "takeWhile (\<lambda>l. raises_at w l = None) typing_lines = typing_lines"
    by (simp add: takeWhile_eq_all_conv)
  then have "keyboard_actions (snd (do_compose_email w r s b)) =
         [KeyboardType r, KeyboardPress ''Tab'', KeyboardType s, KeyboardPress ''Tab'', KeyboardType b]"
    by (simp add: seq_keys) (simp add: typing_lines_def)
  ultimately show ?thesis using out summary by simp
qed

theorem recipient_with_error_marker_raises_witness:
  "str_in ''Error'' ''Error@x.com''
   \<and> LogInfo ''Calling do_compose_email function...''
       \<in> set (snd (compose_email world_signed_in ''Error@x.com'' ''Hi'' ''Hello there''))
   \<and> list_all (\<lambda>l. raises_at world_signed_in l = None) typing_lines
   \<and> (\<exists>m. fst (compose_email world_signed_in ''Error@x.com'' ''Hi'' ''Hello there'')
           = Inl (ValueError m))"
proof -
  have marked: "str_in ''Error'' ''Error@x.com''"
    by simp
  have ok: "\<forall>l\<in>set typing_lines. raises_at world_signed_in l = None"
    by (simp add: world_signed_in_def)
  from recipient_with_error_marker_raises [OF marked marker_signed_in ok]
  have "\<exists>m. fst (compose_email world_signed_in ''Error@x.com'' ''Hi'' ''Hello there'')
           = Inl (ValueError m)"
    by blast
  with marked marker_signed_in ok show ?thesis
    by (simp add: list_all_iff)
qed

end
